theory Spec2Isabelle
  imports Complex_Main "HOL-Library.Sublist"
begin

section \<open>Strings\<close>

text \<open>
  Error messages are modelled as Isabelle strings, lists of 8-bit characters read as the
  code units 0 to 255 (ISO 8859-1); code units above 255 are outside the model.
  \<open>String.prototype.includes\<close> is the contiguous-substring test.
  \<open>String.prototype.toLowerCase\<close> folds the letters \<open>A\<close> to \<open>Z\<close> and the accented
  capitals 192 to 222 (but not the multiplication sign, 215) onto the code unit 32 above;
  every other character is left as it is.
\<close>

definition str_includes :: "string \<Rightarrow> string \<Rightarrow> bool" where
  "str_includes s pat = sublist pat s"

definition toLowerCase_char :: "char \<Rightarrow> char" where
  "toLowerCase_char c =
     (let n = (of_char c :: nat)
      in if (65 \<le> n \<and> n \<le> 90) \<or> (192 \<le> n \<and> n \<le> 222 \<and> n \<noteq> 215) then char_of (n + 32)
         else c)"

definition toLowerCase :: "string \<Rightarrow> string" where
  "toLowerCase s = map toLowerCase_char s"

section \<open>Errors and the classifier\<close>

datatype error = Error (message: string)

text \<open>\<open>isRetryableError\<close>, lines 143 to 165 of \<open>transaction.ts\<close>.\<close>

definition retryableErrors :: "string list" where
  "retryableErrors =
     [''blockhash not found'',
      ''blockhashnotfound'',
      ''simulation failed'',
      ''transaction simulation failed'',
      ''accountdidnotserialize'',
      ''network error'',
      ''network request failed'',
      ''timeout'',
      ''rate limit'',
      ''429'',
      ''too many requests'',
      ''connection refused'',
      ''fetch failed'',
      ''rpc response error'',
      ''failed to get recent blockhash'']"

definition isRetryableError :: "error \<Rightarrow> bool" where
  "isRetryableError err =
     (let msg = toLowerCase (message err)
      in list_ex (\<lambda>retryableError. str_includes msg retryableError) retryableErrors)"

text \<open>The flag \<open>isProgramLogicError\<close> of the catch block, lines 76 to 85.\<close>

definition isProgramLogicError :: "error \<Rightarrow> bool" where
  "isProgramLogicError lastError =
     (str_includes (message lastError) ''RoomNotAvailable'' \<or>
      str_includes (message lastError) ''GameAlreadyStarted'' \<or>
      str_includes (message lastError) ''InvalidGameState'' \<or>
      str_includes (message lastError) ''SelectionTimeExpired'' \<or>
      str_includes (message lastError) ''Error Number: 6001'' \<or>
      str_includes (message lastError) ''Error Number: 6002'' \<or>
      str_includes (message lastError) ''Error Number: 6003'' \<or>
      str_includes (message lastError) ''Error Number: 6004'' \<or>
      str_includes (message lastError) ''Error Number: 6005'')"

text \<open>The condition of the give-up branch, lines 98 to 107.\<close>

definition givesUp :: "error \<Rightarrow> bool" where
  "givesUp lastError =
     (str_includes (message lastError) ''User rejected'' \<or>
      str_includes (message lastError) ''insufficient funds'' \<or>
      str_includes (message lastError) ''insufficient lamports'' \<or>
      str_includes (message lastError) ''Invalid program'' \<or>
      str_includes (message lastError) ''ConstraintMut'' \<or>
      str_includes (message lastError) ''no second player'' \<or>
      isProgramLogicError lastError \<or>
      (\<not> isRetryableError lastError \<and>
       \<not> str_includes (message lastError) ''AccountDidNotSerialize''))"

section \<open>JavaScript numbers\<close>

text \<open>
  A Number is an IEEE 754 binary64 value: a finite value is kept as the rational it denotes,
  and every arithmetic result is rounded to the nearest representable value, ties to even
  (\<open>toDouble\<close>), overflowing to an infinity. The sign of zero is not tracked: the
  quotients and the difference computed by \<open>formatTransactionError\<close> are never a negative
  zero.
\<close>

definition isDigit :: "char \<Rightarrow> bool" where
  "isDigit c = (let n = (of_char c :: nat) in 48 \<le> n \<and> n \<le> 57)"

definition digitChar :: "int \<Rightarrow> char" where
  "digitChar d = char_of (48 + d)"

function decimal :: "int \<Rightarrow> string" where
  "decimal n = (if n < 10 then [digitChar n] else decimal (n div 10) @ [digitChar (n mod 10)])"
  by pat_completeness auto
termination
  by (relation "measure nat") auto

declare decimal.simps [simp del]

definition digitValue :: "char \<Rightarrow> int" where
  "digitValue c = of_char c - 48"

definition decimalValue :: "string \<Rightarrow> int" where
  "decimalValue ds = foldl (\<lambda>acc c. 10 * acc + digitValue c) 0 ds"

datatype number = Finite rat | PosInfinity | NegInfinity | NaN

definition pow2 :: "int \<Rightarrow> rat" where
  "pow2 k = (if 0 \<le> k then of_int (2 ^ nat k) else 1 / of_int (2 ^ nat (- k)))"

function bitLength :: "int \<Rightarrow> int" where
  "bitLength n = (if n \<le> 0 then 0 else 1 + bitLength (n div 2))"
  by pat_completeness auto
termination
  by (relation "measure nat") auto

declare bitLength.simps [simp del]

definition floorLog2 :: "rat \<Rightarrow> int" where
  "floorLog2 x =
     (let (p, q) = quotient_of x;
          k = bitLength p - bitLength q
      in if pow2 k \<le> x then k else k - 1)"

definition roundHalfEven :: "rat \<Rightarrow> int" where
  "roundHalfEven x =
     (let f = \<lfloor>x\<rfloor>; r = x - of_int f
      in if r < 1 / 2 then f else if 1 / 2 < r then f + 1 else if even f then f else f + 1)"

definition toDouble :: "rat \<Rightarrow> number" where
  "toDouble x =
     (if x = 0 then Finite 0
      else
        let a = \<bar>x\<bar>;
            k = max (floorLog2 a) (- 1022);
            ulp = pow2 (k - 52);
            r = of_int (roundHalfEven (a / ulp)) * ulp
        in if of_int (2 ^ 1024) \<le> r then (if 0 < x then PosInfinity else NegInfinity)
           else Finite (if 0 < x then r else - r))"

text \<open>
  \<open>parseInt(s, 10)\<close> on the strings it is applied to here, the captured groups \<open>(\d+)\<close>:
  the value of the leading decimal digits, rounded to a Number, and \<open>NaN\<close> when there is no
  leading digit. (Leading white space and a sign, which \<open>parseInt\<close> would accept, do not
  occur in such a group.)
\<close>

definition parseInt :: "string \<Rightarrow> number" where
  "parseInt s =
     (let ds = takeWhile isDigit s
      in if ds = [] then NaN else toDouble (of_int (decimalValue ds)))"

fun numDivide :: "number \<Rightarrow> number \<Rightarrow> number" where
  "numDivide (Finite x) (Finite y) =
     (if y = 0 then (if x = 0 then NaN else if 0 < x then PosInfinity else NegInfinity)
      else toDouble (x / y))"
| "numDivide (Finite x) PosInfinity = Finite 0"
| "numDivide (Finite x) NegInfinity = Finite 0"
| "numDivide PosInfinity (Finite y) = (if 0 \<le> y then PosInfinity else NegInfinity)"
| "numDivide NegInfinity (Finite y) = (if 0 \<le> y then NegInfinity else PosInfinity)"
| "numDivide x y = NaN"

fun numSubtract :: "number \<Rightarrow> number \<Rightarrow> number" where
  "numSubtract (Finite x) (Finite y) = toDouble (x - y)"
| "numSubtract (Finite x) PosInfinity = NegInfinity"
| "numSubtract (Finite x) NegInfinity = PosInfinity"
| "numSubtract PosInfinity (Finite y) = PosInfinity"
| "numSubtract NegInfinity (Finite y) = NegInfinity"
| "numSubtract PosInfinity NegInfinity = PosInfinity"
| "numSubtract NegInfinity PosInfinity = NegInfinity"
| "numSubtract x y = NaN"

datatype jsException = RangeError

text \<open>
  \<open>Number.prototype.toFixed\<close>. It throws a RangeError when the number of fraction digits is
  above 100. A value of at least \<open>10^21\<close> is printed as \<open>Number::toString\<close> prints it, in
  exponent notation with the shortest digit string that reads back as the same Number
  (\<open>exponentString\<close>); below that, the nearest multiple of \<open>10^-f\<close> is printed, the
  larger one in a tie (\<open>fixedString\<close>).
\<close>

definition digitCandidates :: "rat \<Rightarrow> int \<Rightarrow> nat \<Rightarrow> int list" where
  "digitCandidates x n k =
     (let scale = of_int (10 ^ (nat n - k));
          lo = \<lfloor>x / scale\<rfloor>
      in filter (\<lambda>s. toDouble (of_int s * scale) = Finite x) [lo, lo + 1])"

definition closestCandidate :: "rat \<Rightarrow> int \<Rightarrow> nat \<Rightarrow> int list \<Rightarrow> int" where
  "closestCandidate x n k ss =
     (case ss of
        [s] \<Rightarrow> s
      | [lo, hi] \<Rightarrow>
          (let scale = of_int (10 ^ (nat n - k));
               dlo = x - of_int lo * scale;
               dhi = of_int hi * scale - x
           in if dlo < dhi then lo else if dhi < dlo then hi else if even lo then lo else hi)
      | _ \<Rightarrow> \<lfloor>x / of_int (10 ^ (nat n - k))\<rfloor>)"

definition exponentString :: "rat \<Rightarrow> string" where
  "exponentString x =
     (let n = int (length (decimal \<lfloor>x\<rfloor>));
          k = (case filter (\<lambda>k. digitCandidates x n k \<noteq> []) [1..<18] of [] \<Rightarrow> 17 | k # ks \<Rightarrow> k);
          s = closestCandidate x n k (digitCandidates x n k);
          (digits, e) = (if s = 10 ^ k then (''1'', n) else (decimal s, n - 1))
      in (case digits of
            [] \<Rightarrow> []
          | [d] \<Rightarrow> [d] @ ''e+'' @ decimal e
          | d # ds \<Rightarrow> [d] @ ''.'' @ ds @ ''e+'' @ decimal e))"

definition fixedString :: "nat \<Rightarrow> rat \<Rightarrow> string" where
  "fixedString f x =
     (let n = \<lfloor>x * of_int (10 ^ f) + 1 / 2\<rfloor>;
          m = decimal n
      in if f = 0 then m
         else
           (let m2 = replicate (f + 1 - length m) (CHR ''0'') @ m;
                k = length m2
            in take (k - f) m2 @ ''.'' @ drop (k - f) m2))"

definition toFixed :: "nat \<Rightarrow> number \<Rightarrow> jsException + string" where
  "toFixed fractionDigits num =
     (if 100 < fractionDigits then Inl RangeError
      else case num of
        NaN \<Rightarrow> Inr ''NaN''
      | PosInfinity \<Rightarrow> Inr ''Infinity''
      | NegInfinity \<Rightarrow> Inr ''-Infinity''
      | Finite v \<Rightarrow>
          (let s = (if v < 0 then ''-'' else []);
               x = \<bar>v\<bar>
           in if of_int (10 ^ 21) \<le> x then Inr (s @ exponentString x)
              else Inr (s @ fixedString fractionDigits x)))"

section \<open>formatTransactionError\<close>

definition isWordChar :: "char \<Rightarrow> bool" where
  "isWordChar c =
     (let n = (of_char c :: nat)
      in (48 \<le> n \<and> n \<le> 57) \<or> (65 \<le> n \<and> n \<le> 90) \<or> (97 \<le> n \<and> n \<le> 122) \<or> n = 95)"

text \<open>The regular expression \<open>/insufficient lamports (\d+), need (\d+)/\<close> tried at the
  start of \<open>s\<close>, and its leftmost match in \<open>s\<close>: the two captured groups.\<close>

definition lamportsMatchHere :: "string \<Rightarrow> (string \<times> string) option" where
  "lamportsMatchHere s =
     (if prefix ''insufficient lamports '' s then
        (let r1 = drop (length ''insufficient lamports '') s;
             g1 = takeWhile isDigit r1;
             r2 = dropWhile isDigit r1
         in if g1 \<noteq> [] \<and> prefix '', need '' r2 then
              (let g2 = takeWhile isDigit (drop (length '', need '') r2)
               in if g2 \<noteq> [] then Some (g1, g2) else None)
            else None)
      else None)"

fun lamportsMatch :: "string \<Rightarrow> (string \<times> string) option" where
  "lamportsMatch [] = lamportsMatchHere []"
| "lamportsMatch (c # cs) =
     (case lamportsMatchHere (c # cs) of Some g \<Rightarrow> Some g | None \<Rightarrow> lamportsMatch cs)"

text \<open>The regular expression \<open>/Error Code: (\w+)/\<close>: the captured group of its leftmost match.\<close>

definition errorCodeMatchHere :: "string \<Rightarrow> string option" where
  "errorCodeMatchHere s =
     (if prefix ''Error Code: '' s then
        (let g = takeWhile isWordChar (drop (length ''Error Code: '') s)
         in if g \<noteq> [] then Some g else None)
      else None)"

fun errorCodeMatch :: "string \<Rightarrow> string option" where
  "errorCodeMatch [] = errorCodeMatchHere []"
| "errorCodeMatch (c # cs) =
     (case errorCodeMatchHere (c # cs) of Some g \<Rightarrow> Some g | None \<Rightarrow> errorCodeMatch cs)"

text \<open>\<open>s.split(sep)[0]\<close> and \<open>s.split(sep)[1]\<close> for a non-empty separator.\<close>

fun splitFirst :: "string \<Rightarrow> string \<Rightarrow> string" where
  "splitFirst sep [] = []"
| "splitFirst sep (c # cs) = (if prefix sep (c # cs) then [] else c # splitFirst sep cs)"

fun afterSeparator :: "string \<Rightarrow> string \<Rightarrow> string option" where
  "afterSeparator sep [] = None"
| "afterSeparator sep (c # cs) =
     (if prefix sep (c # cs) then Some (drop (length sep) (c # cs)) else afterSeparator sep cs)"

definition splitSecond :: "string \<Rightarrow> string \<Rightarrow> string option" where
  "splitSecond sep s = map_option (splitFirst sep) (afterSeparator sep s)"

text \<open>Lines 175 to 193: the Anchor program errors, by error code.\<close>

definition programErrorMessage :: "string \<Rightarrow> string option" where
  "programErrorMessage originalMessage =
     (if str_includes originalMessage ''Error Code: RoomNotAvailable'' \<or>
         str_includes originalMessage ''Error Number: 6002''
      then Some ''This room is no longer available for joining. It may be full, expired, or cancelled by the creator.''
      else if str_includes originalMessage ''Error Code: GameAlreadyStarted'' \<or>
         str_includes originalMessage ''Error Number: 6001''
      then Some ''Cannot join: This game has already started with another player.''
      else if str_includes originalMessage ''Error Code: InvalidGameState'' \<or>
         str_includes originalMessage ''Error Number: 6003''
      then Some ''Game is in an invalid state. Try refreshing the page or leaving the game.''
      else if str_includes originalMessage ''Error Code: SelectionTimeExpired'' \<or>
         str_includes originalMessage ''Error Number: 6004''
      then Some (''Selection time has expired. Use '' @ [CHR 0x22] @ ''Handle Timeout'' @ [CHR 0x22] @
                 '' to resolve the game.'')
      else if str_includes originalMessage ''Error Code: InsufficientFunds'' \<or>
         str_includes originalMessage ''Error Number: 6005''
      then Some ''Insufficient SOL balance to cover the bet amount and transaction fees.''
      else None)"

text \<open>Lines 199 to 202: the message with the three amounts.\<close>

definition lamportsMessage :: "string \<Rightarrow> string \<Rightarrow> jsException + string" where
  "lamportsMessage g1 g2 =
     (let available = numDivide (parseInt g1) (Finite 1000000000);
          needed = numDivide (parseInt g2) (Finite 1000000000);
          shortage = numSubtract needed available
      in case toFixed 3 available of
           Inl ex \<Rightarrow> Inl ex
         | Inr a \<Rightarrow>
             (case toFixed 3 needed of
                Inl ex \<Rightarrow> Inl ex
              | Inr n \<Rightarrow>
                  (case toFixed 3 shortage of
                     Inl ex \<Rightarrow> Inl ex
                   | Inr sh \<Rightarrow>
                       Inr (''Insufficient SOL balance. You have '' @ a @ '' SOL but need '' @ n @
                            '' SOL. Please add '' @ sh @ '' more SOL to your wallet.''))))"

text \<open>Lines 207 to 225: the rules on the lower-cased message.\<close>

definition commonErrorMessage :: "string \<Rightarrow> string option" where
  "commonErrorMessage msg =
     (if str_includes msg ''blockhash not found''
      then Some ''Network connection issue. Please check your internet connection and try again.''
      else if str_includes msg ''insufficient funds''
      then Some ''Insufficient SOL balance to cover transaction and fees.''
      else if str_includes msg ''user rejected''
      then Some ''Transaction was cancelled by user.''
      else if str_includes msg ''rate limit'' \<or> str_includes msg ''429''
      then Some ''Network is busy. Please wait a moment and try again.''
      else if str_includes msg ''timeout''
      then Some ''Transaction timed out. Please try again.''
      else if str_includes msg ''invalid program''
      then Some ''Smart contract error. Please contact support.''
      else if str_includes msg ''accountdidnotserialize''
      then Some (''Game account is corrupted. Try '' @ [CHR 0x22] @ ''Handle Timeout'' @ [CHR 0x22] @
                 '' or '' @ [CHR 0x22] @ ''Leave Game'' @ [CHR 0x22] @ ''.'')
      else if str_includes msg ''constraintmut'' \<and> str_includes msg ''player_2''
      then Some (''Cannot process: Game has no second player. Try '' @ [CHR 0x22] @ ''Leave Game'' @
                 [CHR 0x22] @ '' instead.'')
      else if str_includes msg ''no second player''
      then Some (''This game never had a second player. Use '' @ [CHR 0x22] @ ''Leave Game'' @
                 [CHR 0x22] @ '' to exit.'')
      else None)"

text \<open>Lines 228 to 234: the generic Anchor error.\<close>

definition anchorErrorMessage :: "string \<Rightarrow> string option" where
  "anchorErrorMessage originalMessage =
     (if str_includes originalMessage ''AnchorError'' \<and> str_includes originalMessage ''Error Code:''
      then
        (case errorCodeMatch originalMessage of
           None \<Rightarrow> None
         | Some errorCode \<Rightarrow>
             (let detail =
                (case splitSecond ''Error Message: '' originalMessage of
                   None \<Rightarrow> ''Please try again or contact support.''
                 | Some part \<Rightarrow>
                     (if splitFirst ''.'' part = [] then ''Please try again or contact support.''
                      else splitFirst ''.'' part))
              in Some (''Game error ('' @ errorCode @ ''): '' @ detail)))
      else None)"

definition formatTransactionError :: "error \<Rightarrow> jsException + string" where
  "formatTransactionError err =
     (let msg = toLowerCase (message err);
          originalMessage = message err
      in case programErrorMessage originalMessage of
           Some text \<Rightarrow> Inr text
         | None \<Rightarrow>
             if str_includes msg ''insufficient lamports'' then
               (case lamportsMatch msg of
                  Some (g1, g2) \<Rightarrow> lamportsMessage g1 g2
                | None \<Rightarrow> Inr ''Insufficient SOL balance to cover the bet amount and transaction fees.'')
             else
               (case commonErrorMessage msg of
                  Some text \<Rightarrow> Inr text
                | None \<Rightarrow>
                    (case anchorErrorMessage originalMessage of
                       Some text \<Rightarrow> Inr text
                     | None \<Rightarrow> Inr (''Transaction failed: '' @ message err))))"


section \<open>The ledger connection, the send function and the observable run\<close>

type_synonym signature = string

record reference =
  blockhash :: string
  lastValidBlockHeight :: nat

text \<open>
  What the race of \<open>connection.confirmTransaction\<close> against the 60-second timer can see of
  the confirmation promise: it resolves in time (with the JSON text of a truthy
  \<open>value.err\<close>, or without one), it rejects in time, or it is still pending when the
  timer fires.
\<close>

datatype confirmation = Resolves "string option" | Rejects error | Pending

text \<open>
  The environment of one call: the result of the k-th call of
  \<open>connection.getLatestBlockhash\<close>, of the k-th call of the send function
  \<open>transaction\<close>, of the k-th call of \<open>connection.confirmTransaction\<close> on its
  arguments, and the k-th value of \<open>Math.random\<close>.
\<close>

record env =
  getLatestBlockhash :: "nat \<Rightarrow> error + reference"
  transaction :: "nat \<Rightarrow> error + signature"
  confirmTransaction :: "nat \<Rightarrow> signature \<Rightarrow> reference \<Rightarrow> confirmation"
  random :: "nat \<Rightarrow> real"

datatype timer = ConnectionSettle | ConfirmationTimeout | ConfirmedSettle | Backoff

datatype event =
    EvGetLatestBlockhash "error + reference"
  | EvSend "error + signature"
  | EvConfirm signature reference
  | EvSleep timer real

text \<open>
  The calls made so far, and the trace of external events in the order they happen. A sleep
  is a timer that ran to its end, with its duration in milliseconds: the settle delay before
  a resubmission, the 60-second timer of the confirmation race when it wins the race, the
  settle delay after a confirmation, and the backoff.
\<close>

record world =
  blockhashCalls :: nat
  sendCalls :: nat
  confirmCalls :: nat
  randomCalls :: nat
  trace :: "event list"

definition world0 :: world where
  "world0 = \<lparr>blockhashCalls = 0, sendCalls = 0, confirmCalls = 0, randomCalls = 0, trace = []\<rparr>"

definition emit :: "event \<Rightarrow> world \<Rightarrow> world" where
  "emit ev w = w\<lparr>trace := trace w @ [ev]\<rparr>"

section \<open>retryTransaction\<close>

record RetryTransactionOptions =
  maxRetries :: "int option"
  retryDelay :: "real option"

text \<open>The body of the \<open>try\<close> block, lines 22 to 65: the thrown error or the signature.\<close>

definition confirmStep ::
  "env \<Rightarrow> signature \<Rightarrow> reference \<Rightarrow> world \<Rightarrow> (error + signature) \<times> world" where
  "confirmStep e sig r w =
     (let w1 = emit (EvConfirm sig r) (w\<lparr>confirmCalls := Suc (confirmCalls w)\<rparr>)
      in case confirmTransaction e (confirmCalls w) sig r of
           Pending \<Rightarrow>
             (Inl (Error ''Transaction confirmation timeout''),
              emit (EvSleep ConfirmationTimeout 60000) w1)
         | Rejects err \<Rightarrow> (Inl err, w1)
         | Resolves (Some js) \<Rightarrow> (Inl (Error (''Transaction failed: '' @ js)), w1)
         | Resolves None \<Rightarrow> (Inr sig, emit (EvSleep ConfirmedSettle 1000) w1))"

definition sendStep ::
  "env \<Rightarrow> reference \<Rightarrow> world \<Rightarrow> (error + signature) \<times> world" where
  "sendStep e r w =
     (let res = transaction e (sendCalls w);
          w1 = emit (EvSend res) (w\<lparr>sendCalls := Suc (sendCalls w)\<rparr>)
      in case res of
           Inl err \<Rightarrow> (Inl err, w1)
         | Inr sig \<Rightarrow> confirmStep e sig r w1)"

definition tryBlock :: "env \<Rightarrow> int \<Rightarrow> world \<Rightarrow> (error + signature) \<times> world" where
  "tryBlock e attempt w =
     (let res = getLatestBlockhash e (blockhashCalls w);
          w1 = emit (EvGetLatestBlockhash res) (w\<lparr>blockhashCalls := Suc (blockhashCalls w)\<rparr>)
      in case res of
           Inl err \<Rightarrow> (Inl err, w1)
         | Inr r \<Rightarrow>
             sendStep e r (if attempt > 0 then emit (EvSleep ConnectionSettle 300) w1 else w1))"

text \<open>
  The loop of lines 21 to 135 and the final \<open>throw lastError\<close> of line 137. \<open>Inl\<close> is a
  rejection of the returned promise, \<open>Inr\<close> its signature.
\<close>

function attemptLoop ::
  "env \<Rightarrow> int \<Rightarrow> real \<Rightarrow> int \<Rightarrow> error \<Rightarrow> world \<Rightarrow> (error + signature) \<times> world" where
  "attemptLoop e maxR delay0 attempt lastError w =
     (if attempt \<le> maxR then
        (case tryBlock e attempt w of
           (Inr sig, w1) \<Rightarrow> (Inr sig, w1)
         | (Inl err, w1) \<Rightarrow>
             if givesUp err then
               (if str_includes (message err) ''User rejected''
                then (Inl (Error ''Transaction was cancelled by user.''), w1)
                else (Inl err, w1))
             else if attempt = maxR then (Inl err, w1)
             else
               (let baseDelay = delay0 * 2 ^ nat attempt;
                    jitter = random e (randomCalls w1) * 500;
                    delay = baseDelay + jitter;
                    w2 = emit (EvSleep Backoff delay) (w1\<lparr>randomCalls := Suc (randomCalls w1)\<rparr>)
                in attemptLoop e maxR delay0 (attempt + 1) err w2))
      else (Inl lastError, w))"
  by pat_completeness auto
termination
  by (relation "measure (\<lambda>(e, maxR, delay0, attempt, lastError, w). nat (maxR + 1 - attempt))") auto

definition retryTransaction ::
  "env \<Rightarrow> RetryTransactionOptions \<Rightarrow> (error + signature) \<times> world" where
  "retryTransaction e options =
     (let maxR = (case maxRetries options of None \<Rightarrow> 3 | Some n \<Rightarrow> n);
          delay0 = (case retryDelay options of None \<Rightarrow> 1000 | Some d \<Rightarrow> d)
      in attemptLoop e maxR delay0 0 (Error ''Transaction failed'') world0)"

section \<open>Example environments\<close>

text \<open>
  A ledger connection whose \<open>getLatestBlockhash\<close> always succeeds, with a send function
  that gives the same result on every call, a confirmation that behaves the same on every
  call, and a given sequence of \<open>Math.random\<close> values.
\<close>

definition fixtureEnv :: "(error + signature) \<Rightarrow> confirmation \<Rightarrow> (nat \<Rightarrow> real) \<Rightarrow> env" where
  "fixtureEnv tx c rnd =
     \<lparr>getLatestBlockhash = (\<lambda>k. Inr \<lparr>blockhash = ''blockhash'', lastValidBlockHeight = 100 + k\<rparr>),
      transaction = (\<lambda>k. tx),
      confirmTransaction = (\<lambda>k sig r. c),
      random = rnd\<rparr>"

definition noJitter :: "nat \<Rightarrow> real" where
  "noJitter k = 0"

section \<open>Observations on a trace\<close>

text \<open>
  Reading a trace from the left: a send needs a reference fetched since the last send, and a
  confirmation wait must name the signature just sent and the reference fetched before that
  send. \<open>None\<close> marks a trace that breaks this.
\<close>

datatype phase = Idle | Fetched reference | Sent signature reference

fun refStep :: "phase \<Rightarrow> event \<Rightarrow> phase option" where
  "refStep p (EvGetLatestBlockhash (Inr r)) = Some (Fetched r)"
| "refStep p (EvGetLatestBlockhash (Inl err)) = Some Idle"
| "refStep (Fetched r) (EvSend (Inr sig)) = Some (Sent sig r)"
| "refStep (Fetched r) (EvSend (Inl err)) = Some Idle"
| "refStep p (EvSend res) = None"
| "refStep (Sent sig r) (EvConfirm sig' r') = (if sig' = sig \<and> r' = r then Some Idle else None)"
| "refStep p (EvConfirm sig' r') = None"
| "refStep p (EvSleep t d) = Some p"

fun refScan :: "phase \<Rightarrow> event list \<Rightarrow> phase option" where
  "refScan p [] = Some p"
| "refScan p (ev # evs) = (case refStep p ev of None \<Rightarrow> None | Some p' \<Rightarrow> refScan p' evs)"

text \<open>The results of the fetches in a trace, and the backoff delays in a trace, in order.\<close>

fun fetchOf :: "event \<Rightarrow> (error + reference) list" where
  "fetchOf (EvGetLatestBlockhash res) = [res]"
| "fetchOf ev = []"

definition fetches :: "event list \<Rightarrow> (error + reference) list" where
  "fetches evs = concat (map fetchOf evs)"



text \<open>The world after the backoff of lines 123 to 128, entered from world \<open>w1\<close>.\<close>

definition backoffWorld :: "env \<Rightarrow> real \<Rightarrow> int \<Rightarrow> world \<Rightarrow> world" where
  "backoffWorld e d attempt w1 =
     emit (EvSleep Backoff (d * 2 ^ nat attempt + random e (randomCalls w1) * 500))
       (w1\<lparr>randomCalls := Suc (randomCalls w1)\<rparr>)"


section \<open>Observations on printed amounts\<close>



section \<open>The attempt loop, one iteration at a time\<close>

declare attemptLoop.simps [simp del]

lemma attemptLoop_exit:
  "\<not> attempt \<le> maxR \<Longrightarrow> attemptLoop e maxR d attempt le w = (Inl le, w)"
  by (simp add: attemptLoop.simps)

lemma attemptLoop_success:
  "attempt \<le> maxR \<Longrightarrow> tryBlock e attempt w = (Inr sig, w1) \<Longrightarrow>
   attemptLoop e maxR d attempt le w = (Inr sig, w1)"
  by (simp add: attemptLoop.simps)

lemma attemptLoop_giveUp:
  "attempt \<le> maxR \<Longrightarrow> tryBlock e attempt w = (Inl err, w1) \<Longrightarrow> givesUp err \<Longrightarrow>
   attemptLoop e maxR d attempt le w =
     (if str_includes (message err) ''User rejected''
      then (Inl (Error ''Transaction was cancelled by user.''), w1) else (Inl err, w1))"
  by (simp add: attemptLoop.simps)

lemma attemptLoop_last:
  "tryBlock e maxR w = (Inl err, w1) \<Longrightarrow> \<not> givesUp err \<Longrightarrow>
   attemptLoop e maxR d maxR le w = (Inl err, w1)"
  by (simp add: attemptLoop.simps)

lemma attemptLoop_retry:
  "attempt < maxR \<Longrightarrow> tryBlock e attempt w = (Inl err, w1) \<Longrightarrow> \<not> givesUp err \<Longrightarrow>
   attemptLoop e maxR d attempt le w =
     attemptLoop e maxR d (attempt + 1) err
       (emit (EvSleep Backoff (d * 2 ^ nat attempt + random e (randomCalls w1) * 500))
          (w1\<lparr>randomCalls := Suc (randomCalls w1)\<rparr>))"
  by (subst attemptLoop.simps) (simp add: Let_def)

lemma tryBlock_send_fails:
  assumes "getLatestBlockhash e (blockhashCalls w) = Inr r"
    and "transaction e (sendCalls w) = Inl err"
  shows "tryBlock e a w =
     (Inl err,
      w\<lparr>blockhashCalls := Suc (blockhashCalls w), sendCalls := Suc (sendCalls w),
        trace := trace w @ [EvGetLatestBlockhash (Inr r)] @
          (if 0 < a then [EvSleep ConnectionSettle 300] else []) @ [EvSend (Inl err)]\<rparr>)"
  using assms by (simp add: tryBlock_def sendStep_def emit_def Let_def)

lemma tryBlock_blockhashCalls:
  "blockhashCalls (snd (tryBlock e a w)) = Suc (blockhashCalls w)"
  by (simp add: tryBlock_def sendStep_def confirmStep_def emit_def Let_def
      split: sum.splits confirmation.splits option.splits)

lemma tryBlock_sendCalls:
  "sendCalls (snd (tryBlock e a w)) \<le> Suc (sendCalls w)"
  by (simp add: tryBlock_def sendStep_def confirmStep_def emit_def Let_def
      split: sum.splits confirmation.splits option.splits)

lemma tryBlock_randomCalls:
  "randomCalls (snd (tryBlock e a w)) = randomCalls w"
  by (simp add: tryBlock_def sendStep_def confirmStep_def emit_def Let_def
      split: sum.splits confirmation.splits option.splits)

lemma all_fail_loop:
  assumes bh: "\<forall>k. \<exists>r. getLatestBlockhash e k = Inr r"
    and tx: "\<forall>k. \<exists>err. transaction e k = Inl err \<and> \<not> givesUp err"
  shows "n = nat (N - a) \<Longrightarrow> 0 \<le> a \<Longrightarrow> a \<le> N \<Longrightarrow>
     fst (attemptLoop e N d a le w) = transaction e (sendCalls w + n) \<and>
     sendCalls (snd (attemptLoop e N d a le w)) = sendCalls w + n + 1 \<and>
     blockhashCalls (snd (attemptLoop e N d a le w)) = blockhashCalls w + n + 1 \<and>
     confirmCalls (snd (attemptLoop e N d a le w)) = confirmCalls w"
proof (induction n arbitrary: a le w)
  case 0
  then have aN: "a = N" by simp
  obtain r where r: "getLatestBlockhash e (blockhashCalls w) = Inr r" using bh by blast
  obtain err where err: "transaction e (sendCalls w) = Inl err" "\<not> givesUp err" using tx by blast
  show ?case
    unfolding aN using err(1)
    by (simp add: attemptLoop_last [OF tryBlock_send_fails [OF r err(1)] err(2)])
next
  case (Suc n)
  then have lt: "a < N" by simp
  obtain r where r: "getLatestBlockhash e (blockhashCalls w) = Inr r" using bh by blast
  obtain err where err: "transaction e (sendCalls w) = Inl err" "\<not> givesUp err" using tx by blast
  have n: "n = nat (N - (a + 1))" and a1: "0 \<le> a + 1" "a + 1 \<le> N"
    using Suc.prems by simp_all
  define w2 where "w2 = emit (EvSleep Backoff (d * 2 ^ nat a + random e (randomCalls w) * 500))
     (w\<lparr>blockhashCalls := Suc (blockhashCalls w), sendCalls := Suc (sendCalls w),
        randomCalls := Suc (randomCalls w),
        trace := trace w @ [EvGetLatestBlockhash (Inr r)] @
          (if 0 < a then [EvSleep ConnectionSettle 300] else []) @ [EvSend (Inl err)]\<rparr>)"
  have step: "attemptLoop e N d a le w = attemptLoop e N d (a + 1) err w2"
    by (simp add: attemptLoop_retry [OF lt tryBlock_send_fails [OF r err(1)] err(2)] w2_def emit_def)
  have w2: "sendCalls w2 = Suc (sendCalls w)" "blockhashCalls w2 = Suc (blockhashCalls w)"
    "confirmCalls w2 = confirmCalls w"
    by (simp_all add: w2_def emit_def)
  show ?case
    using Suc.IH [OF n a1, of err w2] by (simp add: step w2)
qed

lemma programLogic_marker:
  assumes "marker \<in> {''RoomNotAvailable'', ''GameAlreadyStarted'', ''InvalidGameState'',
        ''SelectionTimeExpired'', ''Error Number: 6001'', ''Error Number: 6002'',
        ''Error Number: 6003'', ''Error Number: 6004'', ''Error Number: 6005''}"
    and "str_includes (message err) marker"
  shows "isProgramLogicError err"
  using assms unfolding isProgramLogicError_def insert_iff empty_iff
  by (elim disjE) (simp_all only: simp_thms)

lemma first_attempt_world:
  assumes "tryBlock e 0 world0 = (res, w1)"
  shows "blockhashCalls w1 = 1 \<and> sendCalls w1 \<le> 1 \<and> randomCalls w1 = 0"
  using tryBlock_blockhashCalls [of e 0 world0] tryBlock_sendCalls [of e 0 world0]
    tryBlock_randomCalls [of e 0 world0] assms
  by (simp add: world0_def)

section \<open>Claims about the attempt loop\<close>

text \<open>
  C10. When \<open>options.maxRetries\<close> is negative the loop body never runs: no call reaches the
  connection or the send function, nothing is awaited, and the promise rejects with the
  placeholder error \<open>Transaction failed\<close>.
\<close>

theorem negative_maxRetries_runs_no_attempt:
  assumes "maxRetries options = Some n" and "n < 0"
  shows "retryTransaction e options =
     (Inl (Error ''Transaction failed''),
      \<lparr>blockhashCalls = 0, sendCalls = 0, confirmCalls = 0, randomCalls = 0, trace = []\<rparr>)"
  using assms by (simp add: retryTransaction_def attemptLoop_exit world0_def)

theorem negative_maxRetries_runs_no_attempt_witness:
  "retryTransaction (fixtureEnv (Inr ''sig'') (Resolves None) noJitter)
       \<lparr>maxRetries = Some (- 1), retryDelay = None\<rparr> =
     (Inl (Error ''Transaction failed''),
      \<lparr>blockhashCalls = 0, sendCalls = 0, confirmCalls = 0, randomCalls = 0, trace = []\<rparr>)"
  using negative_maxRetries_runs_no_attempt
    [of "\<lparr>maxRetries = Some (- 1), retryDelay = None\<rparr>" "- 1"
        "fixtureEnv (Inr ''sig'') (Resolves None) noJitter"]
  by simp

text \<open>
  C1, as stated, fails: an error that matches a retryable marker can also carry a fail-fast
  marker, and then the give-up branch wins. A send function that always fails with
  \<open>Transaction simulation failed: insufficient funds for rent\<close> is called once, not four
  times, under \<open>maxRetries = 3\<close>.
\<close>

theorem retryable_marker_alone_counterexample:
  "isRetryableError (Error ''Transaction simulation failed: insufficient funds for rent'') \<and>
   sendCalls (snd (retryTransaction
       (fixtureEnv (Inl (Error ''Transaction simulation failed: insufficient funds for rent''))
          Pending noJitter)
       \<lparr>maxRetries = Some 3, retryDelay = None\<rparr>)) = 1"
  by code_simp

text \<open>
  C1, amended. Let \<open>N \<ge> 0\<close> be the value of \<open>maxRetries\<close> (3 when absent), let
  \<open>getLatestBlockhash\<close> succeed on every call, and let the send function fail on every
  call with an error that is retryable and does not satisfy the give-up condition of lines
  98 to 107 (none of \<open>User rejected\<close>, \<open>insufficient funds\<close>, \<open>insufficient lamports\<close>,
  \<open>Invalid program\<close>, \<open>ConstraintMut\<close>, \<open>no second player\<close> and no program-logic
  marker). Then the send function is called exactly \<open>N + 1\<close> times, as is
  \<open>getLatestBlockhash\<close>, and the promise rejects with the error of the last call.
\<close>

theorem retry_exhausts_attempts:
  assumes N: "N = (case maxRetries options of None \<Rightarrow> 3 | Some n \<Rightarrow> n)" and "0 \<le> N"
    and bh: "\<forall>k. \<exists>r. getLatestBlockhash e k = Inr r"
    and tx: "\<forall>k. \<exists>err. transaction e k = Inl err \<and> isRetryableError err \<and> \<not> givesUp err"
  shows "sendCalls (snd (retryTransaction e options)) = nat N + 1 \<and>
         blockhashCalls (snd (retryTransaction e options)) = nat N + 1 \<and>
         fst (retryTransaction e options) = transaction e (nat N)"
proof -
  have tx': "\<forall>k. \<exists>err. transaction e k = Inl err \<and> \<not> givesUp err"
    using tx by blast
  have run: "retryTransaction e options =
      attemptLoop e N (case retryDelay options of None \<Rightarrow> 1000 | Some d \<Rightarrow> d) 0
        (Error ''Transaction failed'') world0"
    by (simp add: retryTransaction_def N)
  show ?thesis
    using all_fail_loop [OF bh tx', of "nat N" N 0 _ _ world0] \<open>0 \<le> N\<close>
    by (simp add: run world0_def)
qed

theorem retry_exhausts_attempts_witness:
  "sendCalls (snd (retryTransaction (fixtureEnv (Inl (Error ''Request timeout'')) Pending noJitter)
       \<lparr>maxRetries = Some 2, retryDelay = None\<rparr>)) = 3 \<and>
   fst (retryTransaction (fixtureEnv (Inl (Error ''Request timeout'')) Pending noJitter)
       \<lparr>maxRetries = Some 2, retryDelay = None\<rparr>) = Inl (Error ''Request timeout'')"
proof -
  have r: "isRetryableError (Error ''Request timeout'')" by code_simp
  have g: "\<not> givesUp (Error ''Request timeout'')" by code_simp
  show ?thesis
    using retry_exhausts_attempts
      [of 2 "\<lparr>maxRetries = Some 2, retryDelay = None\<rparr>"
          "fixtureEnv (Inl (Error ''Request timeout'')) Pending noJitter"] r g
    by (simp add: fixtureEnv_def)
qed

text \<open>
  C2, as stated, fails: when the message also contains \<open>User rejected\<close>, the rejection is
  the cancellation sentence and not the raw error.
\<close>

theorem program_logic_raw_error_counterexample:
  "isProgramLogicError (Error ''Error Number: 6001. User rejected the request.'') \<and>
   fst (retryTransaction
       (fixtureEnv (Inl (Error ''Error Number: 6001. User rejected the request.'')) Pending noJitter)
       \<lparr>maxRetries = Some 3, retryDelay = None\<rparr>) \<noteq>
     Inl (Error ''Error Number: 6001. User rejected the request.'')"
  by code_simp

text \<open>
  C2, amended. If the first attempt fails with an error whose message contains a
  program-logic marker and does not contain \<open>User rejected\<close>, and \<open>maxRetries\<close> is not
  negative, then the flag \<open>isProgramLogicError\<close> is set and the promise rejects with that
  raw error after this one attempt: one call of \<open>getLatestBlockhash\<close>, at most one call of
  the send function, no backoff.
\<close>

theorem program_logic_error_single_attempt:
  assumes "marker \<in> {''RoomNotAvailable'', ''GameAlreadyStarted'', ''InvalidGameState'',
        ''SelectionTimeExpired'', ''Error Number: 6001'', ''Error Number: 6002'',
        ''Error Number: 6003'', ''Error Number: 6004'', ''Error Number: 6005''}"
    and "str_includes (message err) marker"
    and "\<not> str_includes (message err) ''User rejected''"
    and "0 \<le> (case maxRetries options of None \<Rightarrow> 3 | Some n \<Rightarrow> n)"
    and "tryBlock e 0 world0 = (Inl err, w1)"
  shows "isProgramLogicError err \<and>
         retryTransaction e options = (Inl err, w1) \<and>
         blockhashCalls w1 = 1 \<and> sendCalls w1 \<le> 1 \<and> randomCalls w1 = 0"
proof -
  have pl: "isProgramLogicError err"
    by (rule programLogic_marker [OF assms(1,2)])
  then have g: "givesUp err" by (simp add: givesUp_def)
  have "retryTransaction e options = (Inl err, w1)"
    unfolding retryTransaction_def Let_def
    by (simp add: attemptLoop_giveUp [OF assms(4,5) g] assms(3))
  with pl first_attempt_world [OF assms(5)] show ?thesis by simp
qed

theorem program_logic_error_single_attempt_witness:
  "isProgramLogicError (Error ''AnchorError occurred. Error Code: GameAlreadyStarted. Error Number: 6001.'') \<and>
   retryTransaction
     (fixtureEnv (Inl (Error ''AnchorError occurred. Error Code: GameAlreadyStarted. Error Number: 6001.''))
        Pending noJitter)
     \<lparr>maxRetries = Some 5, retryDelay = None\<rparr> =
   (Inl (Error ''AnchorError occurred. Error Code: GameAlreadyStarted. Error Number: 6001.''),
    \<lparr>blockhashCalls = 1, sendCalls = 1, confirmCalls = 0, randomCalls = 0,
      trace = [EvGetLatestBlockhash (Inr \<lparr>blockhash = ''blockhash'', lastValidBlockHeight = 100\<rparr>),
               EvSend (Inl (Error ''AnchorError occurred. Error Code: GameAlreadyStarted. Error Number: 6001.''))]\<rparr>)"
proof -
  let ?err = "Error ''AnchorError occurred. Error Code: GameAlreadyStarted. Error Number: 6001.''"
  let ?e = "fixtureEnv (Inl ?err) Pending noJitter"
  let ?w1 = "\<lparr>blockhashCalls = 1, sendCalls = 1, confirmCalls = 0, randomCalls = 0,
      trace = [EvGetLatestBlockhash (Inr \<lparr>blockhash = ''blockhash'', lastValidBlockHeight = 100\<rparr>),
               EvSend (Inl ?err)]\<rparr>"
  have m: "str_includes (message ?err) ''GameAlreadyStarted''" by code_simp
  have u: "\<not> str_includes (message ?err) ''User rejected''" by code_simp
  have t: "tryBlock ?e 0 world0 = (Inl ?err, ?w1)" by code_simp
  show ?thesis
    using program_logic_error_single_attempt
      [of "''GameAlreadyStarted''" ?err "\<lparr>maxRetries = Some 5, retryDelay = None\<rparr>" ?e ?w1, OF _ m u _ t]
    by simp
qed

text \<open>
  C5, as stated, fails: the inner test for \<open>User rejected\<close> (line 109) comes before the
  \<open>throw lastError\<close> of line 113, so a message with both a program-logic marker and
  \<open>User rejected\<close> is answered with the cancellation sentence.
\<close>

theorem program_logic_priority_counterexample:
  "isProgramLogicError (Error ''InvalidGameState: User rejected the request.'') \<and>
   str_includes ''InvalidGameState: User rejected the request.'' ''User rejected'' \<and>
   fst (retryTransaction
       (fixtureEnv (Inl (Error ''InvalidGameState: User rejected the request.'')) Pending noJitter)
       \<lparr>maxRetries = Some 3, retryDelay = None\<rparr>) =
     Inl (Error ''Transaction was cancelled by user.'')"
  by code_simp

text \<open>
  C5, amended. User cancellation has priority over the program-logic markers: if the first
  attempt fails with an error whose message contains both a program-logic marker and
  \<open>User rejected\<close>, and \<open>maxRetries\<close> is not negative, then \<open>isProgramLogicError\<close> is
  set, and the promise rejects after this one attempt with the cancellation sentence.
\<close>

theorem user_rejection_overrides_program_logic:
  assumes "marker \<in> {''RoomNotAvailable'', ''GameAlreadyStarted'', ''InvalidGameState'',
        ''SelectionTimeExpired'', ''Error Number: 6001'', ''Error Number: 6002'',
        ''Error Number: 6003'', ''Error Number: 6004'', ''Error Number: 6005''}"
    and "str_includes (message err) marker"
    and "str_includes (message err) ''User rejected''"
    and "0 \<le> (case maxRetries options of None \<Rightarrow> 3 | Some n \<Rightarrow> n)"
    and "tryBlock e 0 world0 = (Inl err, w1)"
  shows "isProgramLogicError err \<and>
         retryTransaction e options = (Inl (Error ''Transaction was cancelled by user.''), w1) \<and>
         blockhashCalls w1 = 1"
proof -
  have pl: "isProgramLogicError err"
    by (rule programLogic_marker [OF assms(1,2)])
  have g: "givesUp err" using assms(3) by (simp add: givesUp_def)
  have "retryTransaction e options = (Inl (Error ''Transaction was cancelled by user.''), w1)"
    unfolding retryTransaction_def Let_def
    by (simp add: attemptLoop_giveUp [OF assms(4,5) g] assms(3))
  with pl first_attempt_world [OF assms(5)] show ?thesis by simp
qed

theorem user_rejection_overrides_program_logic_witness:
  "isProgramLogicError (Error ''RoomNotAvailable: User rejected the request.'') \<and>
   retryTransaction
     (fixtureEnv (Inl (Error ''RoomNotAvailable: User rejected the request.'')) Pending noJitter)
     \<lparr>maxRetries = None, retryDelay = None\<rparr> =
   (Inl (Error ''Transaction was cancelled by user.''),
    \<lparr>blockhashCalls = 1, sendCalls = 1, confirmCalls = 0, randomCalls = 0,
      trace = [EvGetLatestBlockhash (Inr \<lparr>blockhash = ''blockhash'', lastValidBlockHeight = 100\<rparr>),
               EvSend (Inl (Error ''RoomNotAvailable: User rejected the request.''))]\<rparr>)"
proof -
  let ?err = "Error ''RoomNotAvailable: User rejected the request.''"
  let ?e = "fixtureEnv (Inl ?err) Pending noJitter"
  let ?w1 = "\<lparr>blockhashCalls = 1, sendCalls = 1, confirmCalls = 0, randomCalls = 0,
      trace = [EvGetLatestBlockhash (Inr \<lparr>blockhash = ''blockhash'', lastValidBlockHeight = 100\<rparr>),
               EvSend (Inl ?err)]\<rparr>"
  have m: "str_includes (message ?err) ''RoomNotAvailable''" by code_simp
  have u: "str_includes (message ?err) ''User rejected''" by code_simp
  have t: "tryBlock ?e 0 world0 = (Inl ?err, ?w1)" by code_simp
  show ?thesis
    using user_rejection_overrides_program_logic
      [of "''RoomNotAvailable''" ?err "\<lparr>maxRetries = None, retryDelay = None\<rparr>" ?e ?w1, OF _ m u _ t]
    by simp
qed

section \<open>Claims about references, timeouts and backoff\<close>

lemma refScan_append:
  "refScan p (xs @ ys) = (case refScan p xs of None \<Rightarrow> None | Some p' \<Rightarrow> refScan p' ys)"
  by (induction xs arbitrary: p) (auto split: option.splits)

lemma tryBlock_refScan:
  assumes "refScan p0 (trace w) = Some p"
  shows "refScan p0 (trace (snd (tryBlock e a w))) = Some Idle"
  using assms
  by (simp add: tryBlock_def sendStep_def confirmStep_def emit_def Let_def refScan_append
      split: sum.splits confirmation.splits option.splits)

lemma tryBlock_fetches:
  "fetches (trace (snd (tryBlock e a w))) =
     fetches (trace w) @ [getLatestBlockhash e (blockhashCalls w)]"
  by (simp add: tryBlock_def sendStep_def confirmStep_def emit_def Let_def fetches_def
      split: sum.splits confirmation.splits option.splits)


lemma attemptLoop_step:
  assumes "attempt \<le> maxR"
  shows "snd (attemptLoop e maxR d attempt le w) = snd (tryBlock e attempt w) \<or>
     (attempt < maxR \<and>
      (\<exists>err. attemptLoop e maxR d attempt le w =
         attemptLoop e maxR d (attempt + 1) err
           (backoffWorld e d attempt (snd (tryBlock e attempt w)))))"
proof (cases "tryBlock e attempt w")
  case (Pair res w1)
  show ?thesis
  proof (cases res)
    case (Inr sig)
    with Pair assms show ?thesis
      by (simp add: attemptLoop_success)
  next
    case (Inl err)
    note t = Pair [unfolded Inl]
    show ?thesis
    proof (cases "givesUp err")
      case True
      with t assms show ?thesis
        by (simp add: attemptLoop_giveUp)
    next
      case False
      show ?thesis
      proof (cases "attempt = maxR")
        case True
        with t False show ?thesis
          by (simp add: attemptLoop_last)
      next
        case ne: False
        with assms have lt: "attempt < maxR" by simp
        show ?thesis
          using attemptLoop_retry [OF lt t False] t lt
          by (auto simp: backoffWorld_def)
      qed
    qed
  qed
qed

lemma attemptLoop_refs:
  "refScan Idle (trace w) = Some Idle \<Longrightarrow>
   fetches (trace w) = map (getLatestBlockhash e) [0..<blockhashCalls w] \<Longrightarrow>
   refScan Idle (trace (snd (attemptLoop e maxR d attempt le w))) = Some Idle \<and>
   fetches (trace (snd (attemptLoop e maxR d attempt le w))) =
     map (getLatestBlockhash e) [0..<blockhashCalls (snd (attemptLoop e maxR d attempt le w))]"
proof (induction "nat (maxR + 1 - attempt)" arbitrary: attempt le w)
  case 0
  then have "\<not> attempt \<le> maxR" by simp
  with 0 show ?case by (simp add: attemptLoop_exit)
next
  case (Suc n)
  then have le: "attempt \<le> maxR" by simp
  let ?w1 = "snd (tryBlock e attempt w)"
  have s1: "refScan Idle (trace ?w1) = Some Idle"
    by (rule tryBlock_refScan [OF Suc.prems(1)])
  have f1: "fetches (trace ?w1) = map (getLatestBlockhash e) [0..<blockhashCalls ?w1]"
    by (simp add: tryBlock_fetches tryBlock_blockhashCalls Suc.prems(2))
  consider (stop) "snd (attemptLoop e maxR d attempt le w) = ?w1"
    | (retry) err where "attemptLoop e maxR d attempt le w =
         attemptLoop e maxR d (attempt + 1) err (backoffWorld e d attempt ?w1)"
    using attemptLoop_step [OF le, of e d le w] by blast
  then show ?case
  proof cases
    case stop
    with s1 f1 show ?thesis by simp
  next
    case (retry err)
    have n: "n = nat (maxR + 1 - (attempt + 1))" using Suc.hyps(2) by simp
    show ?thesis
      unfolding retry
      by (rule Suc.hyps(1) [OF n])
        (simp_all add: backoffWorld_def emit_def refScan_append s1 fetches_def
           f1 [unfolded fetches_def])
  qed
qed

lemma timeout_retryable: "isRetryableError (Error ''Transaction confirmation timeout'')"
  by code_simp

lemma timeout_not_givesUp: "\<not> givesUp (Error ''Transaction confirmation timeout'')"
  by code_simp

lemma tryBlock_pending:
  assumes "getLatestBlockhash e (blockhashCalls w) = Inr r"
    and "transaction e (sendCalls w) = Inr sig"
    and "confirmTransaction e (confirmCalls w) sig r = Pending"
  shows "fst (tryBlock e attempt w) = Inl (Error ''Transaction confirmation timeout'')"
    and "trace (snd (tryBlock e attempt w)) =
      trace w @ [EvGetLatestBlockhash (Inr r)] @
      (if 0 < attempt then [EvSleep ConnectionSettle 300] else []) @
      [EvSend (Inr sig), EvConfirm sig r, EvSleep ConfirmationTimeout 60000]"
  using assms by (simp_all add: tryBlock_def sendStep_def confirmStep_def emit_def Let_def)



text \<open>
  C9. In every run, each send is preceded by a fetch of a reference made since the previous
  send, and each confirmation wait names the signature just sent together with the reference
  of the latest fetch, which is the fetch that opened the same attempt. Every fetch is a new
  call of \<open>getLatestBlockhash\<close>: the fetches of the trace are the results of calls
  \<open>0, 1, 2, ...\<close> in order, one per attempt.
\<close>

theorem attempts_use_their_own_reference:
  "refScan Idle (trace (snd (retryTransaction e options))) = Some Idle \<and>
   fetches (trace (snd (retryTransaction e options))) =
     map (getLatestBlockhash e) [0..<blockhashCalls (snd (retryTransaction e options))]"
  unfolding retryTransaction_def Let_def
  by (rule attemptLoop_refs) (simp_all add: world0_def fetches_def)

theorem attempts_use_their_own_reference_witness:
  "trace (snd (retryTransaction (fixtureEnv (Inr ''sig'') Pending noJitter)
       \<lparr>maxRetries = Some 1, retryDelay = None\<rparr>)) =
     [EvGetLatestBlockhash (Inr \<lparr>blockhash = ''blockhash'', lastValidBlockHeight = 100\<rparr>),
      EvSend (Inr ''sig''),
      EvConfirm ''sig'' \<lparr>blockhash = ''blockhash'', lastValidBlockHeight = 100\<rparr>,
      EvSleep ConfirmationTimeout 60000,
      EvSleep Backoff 1000,
      EvGetLatestBlockhash (Inr \<lparr>blockhash = ''blockhash'', lastValidBlockHeight = 101\<rparr>),
      EvSleep ConnectionSettle 300,
      EvSend (Inr ''sig''),
      EvConfirm ''sig'' \<lparr>blockhash = ''blockhash'', lastValidBlockHeight = 101\<rparr>,
      EvSleep ConfirmationTimeout 60000] \<and>
   refScan Idle (trace (snd (retryTransaction (fixtureEnv (Inr ''sig'') Pending noJitter)
       \<lparr>maxRetries = Some 1, retryDelay = None\<rparr>))) = Some Idle"
proof -
  have "trace (snd (retryTransaction (fixtureEnv (Inr ''sig'') Pending noJitter)
       \<lparr>maxRetries = Some 1, retryDelay = None\<rparr>)) =
     [EvGetLatestBlockhash (Inr \<lparr>blockhash = ''blockhash'', lastValidBlockHeight = 100\<rparr>),
      EvSend (Inr ''sig''),
      EvConfirm ''sig'' \<lparr>blockhash = ''blockhash'', lastValidBlockHeight = 100\<rparr>,
      EvSleep ConfirmationTimeout 60000,
      EvSleep Backoff 1000,
      EvGetLatestBlockhash (Inr \<lparr>blockhash = ''blockhash'', lastValidBlockHeight = 101\<rparr>),
      EvSleep ConnectionSettle 300,
      EvSend (Inr ''sig''),
      EvConfirm ''sig'' \<lparr>blockhash = ''blockhash'', lastValidBlockHeight = 101\<rparr>,
      EvSleep ConfirmationTimeout 60000]"
    by code_simp
  then show ?thesis
    using attempts_use_their_own_reference
      [of "fixtureEnv (Inr ''sig'') Pending noJitter" "\<lparr>maxRetries = Some 1, retryDelay = None\<rparr>"]
    by simp
qed

text \<open>
  C6. The race against the 60-second timer is modelled by its outcome: when the confirmation
  is still pending as the timer fires, after 60000 ms, the attempt fails with the error
  \<open>Transaction confirmation timeout\<close>. That error is retryable, so the loop goes on to the
  next attempt after the backoff, or rejects with the timeout error when this was the last
  attempt; \<open>attemptLoop\<close> is a total function, so the call always completes.
\<close>

theorem confirmation_timeout_is_retried:
  assumes "getLatestBlockhash e (blockhashCalls w) = Inr r"
    and "transaction e (sendCalls w) = Inr sig"
    and "confirmTransaction e (confirmCalls w) sig r = Pending"
    and "attempt \<le> maxR"
  shows "fst (tryBlock e attempt w) = Inl (Error ''Transaction confirmation timeout'') \<and>
     trace (snd (tryBlock e attempt w)) =
       trace w @ [EvGetLatestBlockhash (Inr r)] @
       (if 0 < attempt then [EvSleep ConnectionSettle 300] else []) @
       [EvSend (Inr sig), EvConfirm sig r, EvSleep ConfirmationTimeout 60000] \<and>
     isRetryableError (Error ''Transaction confirmation timeout'') \<and>
     attemptLoop e maxR d attempt le w =
       (if attempt = maxR
        then (Inl (Error ''Transaction confirmation timeout''), snd (tryBlock e attempt w))
        else attemptLoop e maxR d (attempt + 1) (Error ''Transaction confirmation timeout'')
               (backoffWorld e d attempt (snd (tryBlock e attempt w))))"
proof -
  let ?T = "Error ''Transaction confirmation timeout''"
  have f: "fst (tryBlock e attempt w) = Inl ?T"
    by (rule tryBlock_pending(1) [OF assms(1-3)])
  then have t: "tryBlock e attempt w = (Inl ?T, snd (tryBlock e attempt w))"
    by (metis prod.collapse)
  note tr = tryBlock_pending(2) [OF assms(1-3), of attempt]
  show ?thesis
  proof (cases "attempt = maxR")
    case True
    with f tr timeout_retryable attemptLoop_last [OF t [unfolded True] timeout_not_givesUp]
    show ?thesis by simp
  next
    case False
    with assms(4) have lt: "attempt < maxR" by simp
    with f tr timeout_retryable attemptLoop_retry [OF lt t timeout_not_givesUp] False
    show ?thesis by (simp add: backoffWorld_def)
  qed
qed

theorem confirmation_timeout_is_retried_witness:
  "trace (snd (tryBlock (fixtureEnv (Inr ''sig'') Pending noJitter) 0 world0)) =
     [EvGetLatestBlockhash (Inr \<lparr>blockhash = ''blockhash'', lastValidBlockHeight = 100\<rparr>),
      EvSend (Inr ''sig''),
      EvConfirm ''sig'' \<lparr>blockhash = ''blockhash'', lastValidBlockHeight = 100\<rparr>,
      EvSleep ConfirmationTimeout 60000] \<and>
   isRetryableError (Error ''Transaction confirmation timeout'') \<and>
   attemptLoop (fixtureEnv (Inr ''sig'') Pending noJitter) 1 1000 0 (Error ''Transaction failed'') world0 =
     attemptLoop (fixtureEnv (Inr ''sig'') Pending noJitter) 1 1000 1
       (Error ''Transaction confirmation timeout'')
       (backoffWorld (fixtureEnv (Inr ''sig'') Pending noJitter) 1000 0
          (snd (tryBlock (fixtureEnv (Inr ''sig'') Pending noJitter) 0 world0)))"
  using confirmation_timeout_is_retried
    [of "fixtureEnv (Inr ''sig'') Pending noJitter" world0
        "\<lparr>blockhash = ''blockhash'', lastValidBlockHeight = 100\<rparr>" "''sig''" 0 1 1000
        "Error ''Transaction failed''"]
  by (simp add: fixtureEnv_def world0_def)




section \<open>Claims about the classifier and the formatter\<close>






















text \<open>
  C3, as stated, fails. The loop tests \<open>User rejected\<close> with this exact casing: an error
  \<open>Wallet error: user rejected the request\<close> is rejected with the raw error. And the
  formatter tests the program error codes first: a message with \<open>Error Number: 6002\<close>
  and \<open>User rejected\<close> gets the sentence of the room error.
\<close>

theorem user_rejection_casing_counterexample:
  "str_includes (toLowerCase ''Wallet error: user rejected the request'') ''user rejected'' \<and>
   fst (retryTransaction
       (fixtureEnv (Inl (Error ''Wallet error: user rejected the request'')) Pending noJitter)
       \<lparr>maxRetries = Some 3, retryDelay = None\<rparr>) =
     Inl (Error ''Wallet error: user rejected the request'') \<and>
   formatTransactionError (Error ''Error Number: 6002. User rejected the request.'') =
     Inr ''This room is no longer available for joining. It may be full, expired, or cancelled by the creator.''"
  by code_simp

text \<open>
  C3, amended. When an attempt fails with an error whose message contains \<open>User rejected\<close>
  in exactly this casing, \<open>retryTransaction\<close> rejects at once with the fixed sentence
  \<open>Transaction was cancelled by user.\<close>. And \<open>formatTransactionError\<close> returns that same
  sentence for every message that contains \<open>user rejected\<close> in any casing, when none of
  the rules before it applies: no program error code, and no \<open>insufficient lamports\<close>,
  \<open>blockhash not found\<close> or \<open>insufficient funds\<close> in the lower-cased message.
\<close>

theorem user_rejection_sentence:
  "(attempt \<le> maxR \<and> tryBlock e attempt w = (Inl err, w1) \<and>
    str_includes (message err) ''User rejected'' \<longrightarrow>
    attemptLoop e maxR d attempt le w = (Inl (Error ''Transaction was cancelled by user.''), w1)) \<and>
   (programErrorMessage (message err) = None \<and>
    \<not> str_includes (toLowerCase (message err)) ''insufficient lamports'' \<and>
    \<not> str_includes (toLowerCase (message err)) ''blockhash not found'' \<and>
    \<not> str_includes (toLowerCase (message err)) ''insufficient funds'' \<and>
    str_includes (toLowerCase (message err)) ''user rejected'' \<longrightarrow>
    formatTransactionError err = Inr ''Transaction was cancelled by user.'')"
proof (intro conjI impI)
  assume a: "attempt \<le> maxR \<and> tryBlock e attempt w = (Inl err, w1) \<and>
    str_includes (message err) ''User rejected''"
  then have g: "givesUp err" by (simp add: givesUp_def)
  from a show "attemptLoop e maxR d attempt le w =
      (Inl (Error ''Transaction was cancelled by user.''), w1)"
    by (simp add: attemptLoop_giveUp [OF _ _ g])
next
  assume "programErrorMessage (message err) = None \<and>
    \<not> str_includes (toLowerCase (message err)) ''insufficient lamports'' \<and>
    \<not> str_includes (toLowerCase (message err)) ''blockhash not found'' \<and>
    \<not> str_includes (toLowerCase (message err)) ''insufficient funds'' \<and>
    str_includes (toLowerCase (message err)) ''user rejected''"
  then show "formatTransactionError err = Inr ''Transaction was cancelled by user.''"
    by (simp add: formatTransactionError_def commonErrorMessage_def Let_def)
qed

theorem user_rejection_sentence_witness:
  "attemptLoop (fixtureEnv (Inl (Error ''User rejected the request.'')) Pending noJitter) 3 1000 0
       (Error ''Transaction failed'') world0 =
     (Inl (Error ''Transaction was cancelled by user.''),
      \<lparr>blockhashCalls = 1, sendCalls = 1, confirmCalls = 0, randomCalls = 0,
        trace = [EvGetLatestBlockhash (Inr \<lparr>blockhash = ''blockhash'', lastValidBlockHeight = 100\<rparr>),
                 EvSend (Inl (Error ''User rejected the request.''))]\<rparr>) \<and>
   formatTransactionError (Error ''USER REJECTED the request.'') =
     Inr ''Transaction was cancelled by user.''"
proof -
  let ?err = "Error ''User rejected the request.''"
  let ?e = "fixtureEnv (Inl ?err) Pending noJitter"
  let ?w1 = "\<lparr>blockhashCalls = 1, sendCalls = 1, confirmCalls = 0, randomCalls = 0,
        trace = [EvGetLatestBlockhash (Inr \<lparr>blockhash = ''blockhash'', lastValidBlockHeight = 100\<rparr>),
                 EvSend (Inl ?err)]\<rparr>"
  let ?up = "Error ''USER REJECTED the request.''"
  have t: "tryBlock ?e 0 world0 = (Inl ?err, ?w1)" by code_simp
  have u: "str_includes (message ?err) ''User rejected''" by code_simp
  have 1: "programErrorMessage (message ?up) = None" by code_simp
  have 2: "\<not> str_includes (toLowerCase (message ?up)) ''insufficient lamports''" by code_simp
  have 3: "\<not> str_includes (toLowerCase (message ?up)) ''blockhash not found''" by code_simp
  have 4: "\<not> str_includes (toLowerCase (message ?up)) ''insufficient funds''" by code_simp
  have 5: "str_includes (toLowerCase (message ?up)) ''user rejected''" by code_simp
  have a: "attemptLoop ?e 3 1000 0 (Error ''Transaction failed'') world0 =
      (Inl (Error ''Transaction was cancelled by user.''), ?w1)"
    using user_rejection_sentence [of 0 3 ?e world0 ?err ?w1 1000 "Error ''Transaction failed''"] t u
    by simp
  have b: "formatTransactionError ?up = Inr ''Transaction was cancelled by user.''"
    using user_rejection_sentence [of 0 0 ?e world0 ?up world0 0 ?up] 1 2 3 4 5
    by blast
  from a b show ?thesis by (rule conjI)
qed

end
